theory Spec2Isabelle
  imports Main "HOL-Library.AList"
begin

section \<open>Data model of \<open>document_parsing_agent.py\<close>\<close>

text \<open>
  The module renders a PDF into page images (\<open>get_images\<close>) and asks a generative
  model, once per page, for the layout items of the page (\<open>find_layout_items\<close>).
  Everything outside the module is a parameter of the embedding: the file system, the PDF
  rasteriser, the image encoder, the JSON parser and the model. Python exceptions are
  values of the type \<open>error\<close>; a function that may raise returns \<open>error + 'a\<close>.
  Calls of \<open>logger.info\<close> have no effect on any result and are left out.
\<close>

text \<open>
  The values \<open>json.loads\<close> can return. A Python \<open>dict\<close> keeps its keys in insertion
  order and holds each key once: it is an association list read with \<open>map_of\<close>.
  Strings are lists of characters. The module never computes with a number; a floating
  point number is \<open>Finite m e\<close> for \<open>m\<close> times two to the power \<open>e\<close>, an infinity with
  its sign (\<open>True\<close> for the negative one), or not a number.
\<close>

datatype pyfloat = Finite int int | Infinity bool | NaN

datatype json =
    JNull
  | JBool bool
  | JInt int
  | JFloat pyfloat
  | JString string
  | JArray "json list"
  | JObject "(string \<times> json) list"

text \<open>
  The exceptions of the module. \<open>AssertionError\<close> carries the message of the failed
  \<open>assert\<close>, \<open>KeyError\<close> the missing key. \<open>JSONDecodeError\<close> is what \<open>json.loads\<close>
  raises on a text that is not JSON, \<open>TypeError\<close> what subscripting or iterating a value
  of the wrong type raises, \<open>ValidationError\<close> what the constructor of \<open>Document\<close> raises
  when \<open>page_content\<close> is not a string. \<open>Raised\<close> is an exception that comes out of a
  function defined outside the module (the rasteriser, the encoder, the model client), with
  its description.
\<close>

datatype error =
    AssertionError string
  | JSONDecodeError
  | KeyError string
  | TypeError
  | ValidationError
  | Raised string

text \<open>\<open>langchain_core.documents.Document\<close>, with the metadata dictionary the module builds.\<close>

record metadata =
  page_number :: nat
  element_type :: json

record document =
  page_content :: string
  metadata :: metadata

text \<open>\<open>class DocumentLayoutParsingState(BaseModel)\<close>.\<close>

record DocumentLayoutParsingState =
  document_path :: string
  pages_as_base64_png_images :: "string list"
  documents :: "document list"

text \<open>
  The two-element \<open>messages\<close> list handed to \<open>generate_content\<close>: the instruction text
  and the inline image \<open>{"mime_type": ..., "data": ...}\<close>.
\<close>

record request =
  prompt :: string
  mime_type :: string
  data :: string

text \<open>
  What the module imports. \<open>extract_images_from_pdf\<close> and \<open>pil_image_to_base64_png\<close>
  are defined in other modules of the package, \<open>json.loads\<close> in the standard library;
  each may raise (\<open>Inl\<close> with the description of the exception, \<open>None\<close> for
  \<open>json.loads\<close>). \<open>model_json_schema\<close> is the text that
  \<open>LayoutElements.model_json_schema()\<close> formats to inside the prompt. \<open>'img\<close> is the
  type of page images.
\<close>

record 'img env =
  is_file :: "string \<Rightarrow> bool"
  extract_images_from_pdf :: "string \<Rightarrow> string + 'img list"
  pil_image_to_base64_png :: "'img \<Rightarrow> string + string"
  json_loads :: "string \<Rightarrow> json option"
  model_json_schema :: string

text \<open>
  \<open>class DocumentParsingAgent\<close>. \<open>generate_content A log req\<close> is the text of the
  model's answer (\<open>self.model.generate_content(messages).text\<close>) to the request \<open>req\<close>
  when \<open>log\<close> lists the requests the model has received before, oldest first; \<open>Inl\<close> is
  an exception of the client. The log of requests is the state of the outside world that
  the agent changes.
\<close>

record DocumentParsingAgent =
  model_name :: string
  generate_content :: "request list \<Rightarrow> request \<Rightarrow> string + string"

section \<open>The Python operations the module uses\<close>

text \<open>\<open>obj[key]\<close> for a string key: only a \<open>dict\<close> can be subscripted with a string.\<close>

fun getitem :: "json \<Rightarrow> string \<Rightarrow> error + json" where
  "getitem (JObject kvs) k =
     (case map_of kvs k of None \<Rightarrow> Inl (KeyError k) | Some v \<Rightarrow> Inr v)"
| "getitem _ k = Inl TypeError"

text \<open>
  \<open>for x in obj\<close>: a list yields its elements, a string its characters as one-character
  strings, a dict its keys; nothing else that \<open>json.loads\<close> returns is iterable.
\<close>

fun iter_json :: "json \<Rightarrow> error + json list" where
  "iter_json (JArray xs) = Inr xs"
| "iter_json (JString s) = Inr (map (\<lambda>c. JString [c]) s)"
| "iter_json (JObject kvs) = Inr (map (\<lambda>kv. JString (fst kv)) kvs)"
| "iter_json _ = Inl TypeError"

text \<open>
  A list comprehension \<open>[f(x) for x in xs]\<close> whose body may raise: the elements are
  evaluated from left to right and the first exception ends the evaluation.
\<close>

fun comprehension :: "('a \<Rightarrow> 'e + 'b) \<Rightarrow> 'a list \<Rightarrow> 'e + 'b list" where
  "comprehension f [] = Inr []"
| "comprehension f (x # xs) =
     (case f x of
        Inl e \<Rightarrow> Inl e
      | Inr y \<Rightarrow> (case comprehension f xs of Inl e \<Rightarrow> Inl e | Inr ys \<Rightarrow> Inr (y # ys)))"

text \<open>
  \<open>Document(page_content=..., metadata=...)\<close>: the field \<open>page_content\<close> is declared
  \<open>str\<close> and validated by the constructor; the metadata dictionary is stored as given.
\<close>

fun Document_init :: "json \<Rightarrow> metadata \<Rightarrow> error + document" where
  "Document_init (JString s) md = Inr \<lparr>page_content = s, metadata = md\<rparr>"
| "Document_init _ md = Inl ValidationError"

section \<open>\<open>get_images\<close>\<close>

text \<open>
  Lines 54 to 64. Every operation returns, beside its result, the state object it was
  given as it is after the call, so that a write to the object would show. A failed
  \<open>assert\<close> raises \<open>AssertionError\<close> with its message (the interpreter runs without
  \<open>-O\<close>); an empty list is the only list that is false.
\<close>

definition get_images ::
  "'img env \<Rightarrow> DocumentLayoutParsingState \<Rightarrow> (error + string list) \<times> DocumentLayoutParsingState"
where
  "get_images E state =
     (if \<not> is_file E (document_path state) then (Inl (AssertionError ''File does not exist''), state)
      else (case extract_images_from_pdf E (document_path state) of
        Inl x \<Rightarrow> (Inl (Raised x), state)
      | Inr images \<Rightarrow>
          (if images = [] then (Inl (AssertionError ''No images extracted''), state)
           else (case comprehension (pil_image_to_base64_png E) images of
             Inl x \<Rightarrow> (Inl (Raised x), state)
           | Inr pages \<Rightarrow> (Inr pages, state)))))"

section \<open>\<open>find_layout_items\<close>\<close>

text \<open>The \<open>messages\<close> of lines 72 to 78 for one page.\<close>

definition messages :: "'img env \<Rightarrow> string \<Rightarrow> request" where
  "messages E base64_image_page =
     \<lparr>prompt =
        ''Find and summarize all the relevant layout elements in this pdf page in the following format: ''
        @ model_json_schema E @ ''. ''
        @ ''Tables should have at least two columns and at least two rows. ''
        @ ''The coordinates should overlap with each layout item.'',
      mime_type = ''image/png'',
      data = base64_image_page\<rparr>"

text \<open>
  The body of the comprehension of lines 83 to 92 for one item \<open>x\<close> of page \<open>i\<close>:
  \<open>x["summary"]\<close> is evaluated first, then \<open>x["element_type"]\<close>, then the constructor runs.
\<close>

definition item_document :: "nat \<Rightarrow> json \<Rightarrow> error + document" where
  "item_document i x =
     (case getitem x ''summary'' of
        Inl e \<Rightarrow> Inl e
      | Inr s \<Rightarrow>
          (case getitem x ''element_type'' of
             Inl e \<Rightarrow> Inl e
           | Inr t \<Rightarrow> Document_init s \<lparr>page_number = i, element_type = t\<rparr>))"

text \<open>The comprehension of lines 83 to 92 over \<open>data["layout_items"]\<close>.\<close>

definition page_documents :: "nat \<Rightarrow> json \<Rightarrow> error + document list" where
  "page_documents i d =
     (case getitem d ''layout_items'' of
        Inl e \<Rightarrow> Inl e
      | Inr v \<Rightarrow>
          (case iter_json v of
             Inl e \<Rightarrow> Inl e
           | Inr xs \<Rightarrow> comprehension (item_document i) xs))"

text \<open>
  Lines 80 to 93 for page \<open>i\<close>, once the request is built: the model's answer is parsed
  and turned into the documents of the page.
\<close>

definition process_page ::
  "'img env \<Rightarrow> DocumentParsingAgent \<Rightarrow> request list \<Rightarrow> nat \<Rightarrow> string \<Rightarrow> error + document list"
where
  "process_page E A log i base64_image_page =
     (case generate_content A log (messages E base64_image_page) of
        Inl x \<Rightarrow> Inl (Raised x)
      | Inr text \<Rightarrow>
          (case json_loads E text of
             None \<Rightarrow> Inl JSONDecodeError
           | Some d \<Rightarrow> page_documents i d))"

text \<open>
  The loop of lines 68 to 96 over \<open>enumerate(state.pages_as_base64_png_images)\<close>, from
  index \<open>i\<close> on, with the local list \<open>documents\<close> and the log of requests. Each round
  issues its request; an exception ends the loop and the local list is lost with it.
\<close>

fun layout_loop ::
  "'img env \<Rightarrow> DocumentParsingAgent \<Rightarrow> nat \<Rightarrow> string list \<Rightarrow> document list \<Rightarrow> request list
     \<Rightarrow> (error + document list) \<times> request list"
where
  "layout_loop E A i [] docs log = (Inr docs, log)"
| "layout_loop E A i (p # ps) docs log =
     (case process_page E A log i p of
        Inl e \<Rightarrow> (Inl e, log @ [messages E p])
      | Inr ds \<Rightarrow> layout_loop E A (Suc i) ps (docs @ ds) (log @ [messages E p]))"

text \<open>
  Lines 66 to 99. The result is the list under the key \<open>"documents"\<close> of the returned
  dictionary, the state object after the call, and the log of requests after the call.
\<close>

definition find_layout_items ::
  "'img env \<Rightarrow> DocumentParsingAgent \<Rightarrow> DocumentLayoutParsingState \<Rightarrow> request list
     \<Rightarrow> (error + document list) \<times> DocumentLayoutParsingState \<times> request list"
where
  "find_layout_items E A state log =
     (case layout_loop E A 0 (pages_as_base64_png_images state) [] log of
        (r, log') \<Rightarrow> (r, state, log'))"

section \<open>The script under \<open>__main__\<close>\<close>

text \<open>
  Lines 102 to 111 for a document path: a fresh state, \<open>get_images\<close>, the assignment of
  its result to the state, \<open>find_layout_items\<close>. An exception of \<open>get_images\<close> ends the
  script before the agent is used. The printing of the result is left out.
\<close>

definition main ::
  "'img env \<Rightarrow> DocumentParsingAgent \<Rightarrow> string \<Rightarrow> request list
     \<Rightarrow> (error + document list) \<times> DocumentLayoutParsingState \<times> request list"
where
  "main E A path log =
     (let state0 = \<lparr>document_path = path, pages_as_base64_png_images = [], documents = []\<rparr>
      in case get_images E state0 of
           (Inl e, state1) \<Rightarrow> (Inl e, state1, log)
         | (Inr pages, state1) \<Rightarrow>
             find_layout_items E A (state1\<lparr>pages_as_base64_png_images := pages\<rparr>) log)"

section \<open>The declared response schema\<close>

text \<open>
  Lines 15 to 25 declare the shape of an answer as two pydantic classes; the agent hands
  them to the model (\<open>response_schema\<close>, and \<open>model_json_schema()\<close> in the prompt) and
  never validates an answer with them. What the classes accept, field by field:
  \<open>DetectedLayoutItem\<close> requires \<open>element_type\<close>, one of four literals, and \<open>summary\<close>,
  a string; \<open>LayoutElements\<close> has one field \<open>layout_items\<close>, a list of items that
  defaults to the empty list and has no bound on its length (the words "Return 10 Items at
  most" stand in the description of \<open>element_type\<close> only).
\<close>

definition element_type_literals :: "string list" where
  "element_type_literals = [''Table'', ''Figure'', ''Image'', ''Text-block'']"

definition DetectedLayoutItem_validate :: "json \<Rightarrow> bool" where
  "DetectedLayoutItem_validate x =
     (case x of
        JObject kvs \<Rightarrow>
          (case map_of kvs ''element_type'' of
             Some (JString t) \<Rightarrow> t \<in> set element_type_literals
           | _ \<Rightarrow> False)
          \<and> (case map_of kvs ''summary'' of Some (JString s) \<Rightarrow> True | _ \<Rightarrow> False)
      | _ \<Rightarrow> False)"

definition LayoutElements_validate :: "json \<Rightarrow> bool" where
  "LayoutElements_validate d =
     (case d of
        JObject kvs \<Rightarrow>
          (case map_of kvs ''layout_items'' of
             None \<Rightarrow> True
           | Some (JArray xs) \<Rightarrow> list_all DetectedLayoutItem_validate xs
           | Some _ \<Rightarrow> False)
      | _ \<Rightarrow> False)"

section \<open>A reference JSON parser and test doubles\<close>

text \<open>
  The theorems below hold for every \<open>json_loads\<close>. To run the agent on the answer texts
  of the specification's scenarios, \<open>json_loads_ref\<close> parses JSON texts the way
  \<open>json.loads\<close> does: white space between tokens, the escapes of one character in
  strings, no control character in a string, no leading zero in a number, nothing after
  the value, and for a repeated key the place of its first occurrence with the value of
  its last. It rejects what the scenarios do not use: fractions and exponents, escapes
  with four hexadecimal digits, and the words \<open>NaN\<close> and \<open>Infinity\<close>.
\<close>

datatype token =
    TLBrace | TRBrace | TLBrack | TRBrack | TColon | TComma
  | TStr string | TInt int | TTrue | TFalse | TNull

text \<open>The lexer reads one character at a time; a mode holds the characters of an
  unfinished string, number or word, last first.\<close>

datatype lexmode = Idle | InStr string | InEsc string | InNum string | InWord string

definition is_ws :: "char \<Rightarrow> bool" where
  "is_ws c = (c = CHR '' '' \<or> c = CHR 0x09 \<or> c = CHR 0x0A \<or> c = CHR 0x0D)"

definition is_digit :: "char \<Rightarrow> bool" where
  "is_digit c = (c \<in> set ''0123456789'')"

definition is_letter :: "char \<Rightarrow> bool" where
  "is_letter c = (c \<in> set ''abcdefghijklmnopqrstuvwxyz'')"

definition digit_val :: "char \<Rightarrow> nat" where
  "digit_val c = of_char c - 48"

definition number_token :: "string \<Rightarrow> token option" where
  "number_token s =
     (let neg = (s \<noteq> [] \<and> hd s = CHR ''-'');
          ds = (if neg then tl s else s)
      in if ds = [] \<or> (1 < length ds \<and> hd ds = CHR ''0'') then None
         else Some (TInt ((if neg then - 1 else 1)
                * int (foldl (\<lambda>n c. 10 * n + digit_val c) 0 ds))))"

definition word_token :: "string \<Rightarrow> token option" where
  "word_token s =
     (if s = ''true'' then Some TTrue
      else if s = ''false'' then Some TFalse
      else if s = ''null'' then Some TNull
      else None)"

definition unescape :: "char \<Rightarrow> char option" where
  "unescape c =
     (if c = CHR 0x22 then Some (CHR 0x22)
      else if c = CHR 0x5C then Some (CHR 0x5C)
      else if c = CHR ''/'' then Some (CHR ''/'')
      else if c = CHR ''b'' then Some (CHR 0x08)
      else if c = CHR ''f'' then Some (CHR 0x0C)
      else if c = CHR ''n'' then Some (CHR 0x0A)
      else if c = CHR ''r'' then Some (CHR 0x0D)
      else if c = CHR ''t'' then Some (CHR 0x09)
      else None)"

definition idle_step :: "token list \<Rightarrow> char \<Rightarrow> (lexmode \<times> token list) option" where
  "idle_step ts c =
     (if is_ws c then Some (Idle, ts)
      else if c = CHR ''{'' then Some (Idle, TLBrace # ts)
      else if c = CHR ''}'' then Some (Idle, TRBrace # ts)
      else if c = CHR ''['' then Some (Idle, TLBrack # ts)
      else if c = CHR '']'' then Some (Idle, TRBrack # ts)
      else if c = CHR '':'' then Some (Idle, TColon # ts)
      else if c = CHR '','' then Some (Idle, TComma # ts)
      else if c = CHR 0x22 then Some (InStr [], ts)
      else if c = CHR ''-'' \<or> is_digit c then Some (InNum [c], ts)
      else if is_letter c then Some (InWord [c], ts)
      else None)"

fun lex_step :: "lexmode \<Rightarrow> token list \<Rightarrow> char \<Rightarrow> (lexmode \<times> token list) option" where
  "lex_step Idle ts c = idle_step ts c"
| "lex_step (InStr acc) ts c =
     (if c = CHR 0x22 then Some (Idle, TStr (rev acc) # ts)
      else if c = CHR 0x5C then Some (InEsc acc, ts)
      else if (of_char c :: nat) < 32 then None
      else Some (InStr (c # acc), ts))"
| "lex_step (InEsc acc) ts c =
     (case unescape c of None \<Rightarrow> None | Some d \<Rightarrow> Some (InStr (d # acc), ts))"
| "lex_step (InNum acc) ts c =
     (if is_digit c then Some (InNum (c # acc), ts)
      else case number_token (rev acc) of None \<Rightarrow> None | Some t \<Rightarrow> idle_step (t # ts) c)"
| "lex_step (InWord acc) ts c =
     (if is_letter c then Some (InWord (c # acc), ts)
      else case word_token (rev acc) of None \<Rightarrow> None | Some t \<Rightarrow> idle_step (t # ts) c)"

fun lex_end :: "lexmode \<Rightarrow> token list \<Rightarrow> token list option" where
  "lex_end Idle ts = Some (rev ts)"
| "lex_end (InNum acc) ts =
     (case number_token (rev acc) of None \<Rightarrow> None | Some t \<Rightarrow> Some (rev (t # ts)))"
| "lex_end (InWord acc) ts =
     (case word_token (rev acc) of None \<Rightarrow> None | Some t \<Rightarrow> Some (rev (t # ts)))"
| "lex_end _ ts = None"

fun lex :: "lexmode \<Rightarrow> token list \<Rightarrow> string \<Rightarrow> token list option" where
  "lex m ts [] = lex_end m ts"
| "lex m ts (c # cs) =
     (case lex_step m ts c of None \<Rightarrow> None | Some (m', ts') \<Rightarrow> lex m' ts' cs)"

text \<open>\<open>dict(pairs)\<close>: a later pair with a key already present replaces its value in place.\<close>

definition dict_of :: "(string \<times> json) list \<Rightarrow> (string \<times> json) list" where
  "dict_of kvs = foldl (\<lambda>d kv. AList.update (fst kv) (snd kv) d) [] kvs"

text \<open>
  The parser reads one token at a time and keeps a stack of the arrays and objects it is
  inside. A frame holds what has been read of its array or object, last first; \<open>FKey\<close>
  is an object that has read a key and waits for the value. \<open>expect\<close> says what may come
  next: a value, a value or the end of an array just opened, a key or the end of an object
  just opened, a key, the colon after a key, or a comma or the end of the array or object.
\<close>

datatype frame =
    FArr "json list"
  | FObj "(string \<times> json) list"
  | FKey "(string \<times> json) list" string

datatype expect = EValue | EValueOrClose | EKeyOrClose | EKey | EColon | ESep

datatype config = Run expect "frame list" | Done json

text \<open>A value is complete: it is the whole text, or it goes into the frame on top.\<close>

fun push_value :: "json \<Rightarrow> frame list \<Rightarrow> config option" where
  "push_value v [] = Some (Done v)"
| "push_value v (FArr acc # st) = Some (Run ESep (FArr (v # acc) # st))"
| "push_value v (FKey acc k # st) = Some (Run ESep (FObj ((k, v) # acc) # st))"
| "push_value v (FObj acc # st) = None"

definition value_step :: "frame list \<Rightarrow> token \<Rightarrow> config option" where
  "value_step st t =
     (case t of
        TStr s \<Rightarrow> push_value (JString s) st
      | TInt k \<Rightarrow> push_value (JInt k) st
      | TTrue \<Rightarrow> push_value (JBool True) st
      | TFalse \<Rightarrow> push_value (JBool False) st
      | TNull \<Rightarrow> push_value JNull st
      | TLBrack \<Rightarrow> Some (Run EValueOrClose (FArr [] # st))
      | TLBrace \<Rightarrow> Some (Run EKeyOrClose (FObj [] # st))
      | _ \<Rightarrow> None)"

definition key_step :: "frame list \<Rightarrow> token \<Rightarrow> config option" where
  "key_step st t =
     (case t of
        TStr k \<Rightarrow> (case st of FObj acc # st' \<Rightarrow> Some (Run EColon (FKey acc k # st')) | _ \<Rightarrow> None)
      | _ \<Rightarrow> None)"

definition sep_step :: "frame list \<Rightarrow> token \<Rightarrow> config option" where
  "sep_step st t =
     (case st of
        FArr acc # st' \<Rightarrow>
          (case t of
             TComma \<Rightarrow> Some (Run EValue st)
           | TRBrack \<Rightarrow> push_value (JArray (rev acc)) st'
           | _ \<Rightarrow> None)
      | FObj acc # st' \<Rightarrow>
          (case t of
             TComma \<Rightarrow> Some (Run EKey st)
           | TRBrace \<Rightarrow> push_value (JObject (dict_of (rev acc))) st'
           | _ \<Rightarrow> None)
      | _ \<Rightarrow> None)"

fun parse_step :: "config \<Rightarrow> token \<Rightarrow> config option" where
  "parse_step (Done v) t = None"
| "parse_step (Run EValue st) t = value_step st t"
| "parse_step (Run EValueOrClose st) t =
     (case t of
        TRBrack \<Rightarrow> (case st of FArr acc # st' \<Rightarrow> push_value (JArray []) st' | _ \<Rightarrow> None)
      | _ \<Rightarrow> value_step st t)"
| "parse_step (Run EKeyOrClose st) t =
     (case t of
        TRBrace \<Rightarrow> (case st of FObj acc # st' \<Rightarrow> push_value (JObject []) st' | _ \<Rightarrow> None)
      | _ \<Rightarrow> key_step st t)"
| "parse_step (Run EKey st) t = key_step st t"
| "parse_step (Run EColon st) t = (case t of TColon \<Rightarrow> Some (Run EValue st) | _ \<Rightarrow> None)"
| "parse_step (Run ESep st) t = sep_step st t"

fun parse :: "config \<Rightarrow> token list \<Rightarrow> json option" where
  "parse c [] = (case c of Done v \<Rightarrow> Some v | Run e st \<Rightarrow> None)"
| "parse c (t # ts) = (case parse_step c t of None \<Rightarrow> None | Some c' \<Rightarrow> parse c' ts)"

definition json_loads_ref :: "string \<Rightarrow> json option" where
  "json_loads_ref s =
     (case lex Idle [] s of None \<Rightarrow> None | Some ts \<Rightarrow> parse (Run EValue []) ts)"

text \<open>
  Test doubles. In \<open>mock_env images\<close> only \<open>docs.pdf\<close> exists, it renders to
  \<open>images\<close> (an image is a string here) and the encoder puts \<open>b64:\<close> before an image.
  \<open>mock_agent answers\<close> answers a request by the image it carries, from a table.
\<close>

definition mock_env :: "string list \<Rightarrow> string env" where
  "mock_env images =
     \<lparr>is_file = (\<lambda>p. p = ''docs.pdf''),
      extract_images_from_pdf = (\<lambda>p. Inr images),
      pil_image_to_base64_png = (\<lambda>img. Inr (''b64:'' @ img)),
      json_loads = json_loads_ref,
      model_json_schema = ''{}''\<rparr>"

definition mock_agent :: "(string \<times> string) list \<Rightarrow> DocumentParsingAgent" where
  "mock_agent answers =
     \<lparr>model_name = ''mock'',
      generate_content =
        (\<lambda>log req. case map_of answers (data req) of
                      None \<Rightarrow> Inl ''no answer''
                    | Some t \<Rightarrow> Inr t)\<rparr>"

text \<open>The answer texts of the scenarios.\<close>

definition answer_table :: string where
  \<open>answer_table = ''{"layout_items":[{"element_type":"Table","summary":"Revenue table"}]}''\<close>

definition answer_empty :: string where
  \<open>answer_empty = ''{"layout_items":[]}''\<close>

definition answer_figure :: string where
  \<open>answer_figure = ''{"layout_items":[{"element_type":"Figure","summary":"Sales chart"}]}''\<close>

definition answer_malformed :: string where
  \<open>answer_malformed = ''{"layout_items":[{"element_type":"Table",''\<close>

definition two_pages :: DocumentLayoutParsingState where
  "two_pages =
     \<lparr>document_path = ''docs.pdf'',
      pages_as_base64_png_images = [''b64:p0'', ''b64:p1''],
      documents = []\<rparr>"

definition one_page :: DocumentLayoutParsingState where
  "one_page =
     \<lparr>document_path = ''docs.pdf'',
      pages_as_base64_png_images = [''b64:p0''],
      documents = []\<rparr>"

text \<open>An item whose element type is none of the four literals, an item without
  \<open>summary\<close>, and an answer of eleven items.\<close>

definition answer_banana :: string where
  \<open>answer_banana = ''{"layout_items":[{"element_type":"Banana","summary":"Yellow fruit"}]}''\<close>

definition answer_no_summary :: string where
  \<open>answer_no_summary = ''{"layout_items":[{"element_type":"Table"}]}''\<close>

definition answer_eleven :: string where
  \<open>answer_eleven =
     ''{"layout_items":[''
     @ ''{"element_type":"Text-block","summary":"a"},''
     @ ''{"element_type":"Text-block","summary":"b"},''
     @ ''{"element_type":"Text-block","summary":"c"},''
     @ ''{"element_type":"Text-block","summary":"d"},''
     @ ''{"element_type":"Text-block","summary":"e"},''
     @ ''{"element_type":"Text-block","summary":"f"},''
     @ ''{"element_type":"Text-block","summary":"g"},''
     @ ''{"element_type":"Text-block","summary":"h"},''
     @ ''{"element_type":"Text-block","summary":"i"},''
     @ ''{"element_type":"Text-block","summary":"j"},''
     @ ''{"element_type":"Text-block","summary":"k"}]}''\<close>

definition eleven_items :: "json list" where
  "eleven_items =
     map (\<lambda>s. JObject [(''element_type'', JString ''Text-block''), (''summary'', JString s)])
       [''a'', ''b'', ''c'', ''d'', ''e'', ''f'', ''g'', ''h'', ''i'', ''j'', ''k'']"

text \<open>The documents of page 0 for the eleven items.\<close>

definition eleven_documents :: "document list" where
  "eleven_documents =
     map (\<lambda>s. \<lparr>page_content = s,
                metadata = \<lparr>page_number = 0, element_type = JString ''Text-block''\<rparr>\<rparr>)
       [''a'', ''b'', ''c'', ''d'', ''e'', ''f'', ''g'', ''h'', ''i'', ''j'', ''k'']"

section \<open>The loop of \<open>find_layout_items\<close>\<close>

text \<open>A comprehension returns a list exactly when its body returns for every element, and
  then the results stand in the order of the elements.\<close>

lemma comprehension_Inr_iff:
  "comprehension f xs = Inr ys \<longleftrightarrow> list_all2 (\<lambda>x y. f x = Inr y) xs ys"
proof (induction xs arbitrary: ys)
  case Nil
  show ?case by auto
next
  case (Cons x xs)
  show ?case
    by (cases ys) (auto simp: Cons.IH [symmetric] split: sum.splits)
qed

lemma comprehension_Inl:
  "x \<in> set xs \<Longrightarrow> f x = Inl e \<Longrightarrow> \<exists>e'. comprehension f xs = Inl e'"
  by (induction xs) (auto split: sum.splits)

text \<open>Every document of page \<open>i\<close> carries the page number \<open>i\<close>.\<close>

lemma item_document_page_number:
  "item_document i x = Inr d \<Longrightarrow> page_number (metadata d) = i"
  by (cases "getitem x ''summary''"; cases "getitem x ''element_type''")
     (auto simp: item_document_def elim!: Document_init.elims)

lemma page_documents_page_number:
  assumes "page_documents i d = Inr ds" and "x \<in> set ds"
  shows "page_number (metadata x) = i"
proof -
  from assms(1) obtain xs where "comprehension (item_document i) xs = Inr ds"
    by (auto simp: page_documents_def split: sum.splits)
  then have "list_all2 (\<lambda>x y. item_document i x = Inr y) xs ds"
    by (simp add: comprehension_Inr_iff)
  with assms(2) obtain y where "item_document i y = Inr x"
    by (auto simp: list_all2_conv_all_nth in_set_conv_nth)
  then show ?thesis by (rule item_document_page_number)
qed

lemma process_page_page_number:
  assumes "process_page E A log i p = Inr ds" and "x \<in> set ds"
  shows "page_number (metadata x) = i"
  using assms
  by (auto simp: process_page_def split: sum.splits option.splits
           dest: page_documents_page_number)

text \<open>
  When the loop returns, it has sent the request of every page, in order, and its result
  is the given list followed by the documents of the pages in order. Page \<open>j\<close> of the
  remaining pages is processed under the index \<open>i + j\<close>, when the log holds the requests
  of the pages before it.
\<close>

lemma layout_loop_success:
  assumes "layout_loop E A i ps docs log = (Inr out, log')"
  shows "log' = log @ map (messages E) ps \<and>
         (\<exists>dss. length dss = length ps \<and> out = docs @ concat dss \<and>
            (\<forall>j<length ps.
               process_page E A (log @ map (messages E) (take j ps)) (i + j) (ps ! j)
                 = Inr (dss ! j)))"
  using assms
proof (induction ps arbitrary: i docs log)
  case Nil
  then show ?case by simp
next
  case (Cons p ps)
  from Cons.prems obtain ds where
    ds: "process_page E A log i p = Inr ds" and
    rest: "layout_loop E A (Suc i) ps (docs @ ds) (log @ [messages E p]) = (Inr out, log')"
    by (auto split: sum.splits)
  from Cons.IH [OF rest] obtain dss where
    l: "log' = (log @ [messages E p]) @ map (messages E) ps" and
    n: "length dss = length ps" and
    o: "out = (docs @ ds) @ concat dss" and
    a: "\<forall>j<length ps.
          process_page E A ((log @ [messages E p]) @ map (messages E) (take j ps))
            (Suc i + j) (ps ! j) = Inr (dss ! j)"
    by blast
  have "\<forall>j<length (p # ps).
          process_page E A (log @ map (messages E) (take j (p # ps))) (i + j) ((p # ps) ! j)
            = Inr ((ds # dss) ! j)"
  proof (intro allI impI)
    fix j assume "j < length (p # ps)"
    then show "process_page E A (log @ map (messages E) (take j (p # ps))) (i + j) ((p # ps) ! j)
            = Inr ((ds # dss) ! j)"
      using ds a by (cases j) auto
  qed
  with l n o show ?case
    by (intro conjI exI [of _ "ds # dss"]) auto
qed

text \<open>
  When the pages before page \<open>k\<close> are processed and page \<open>k\<close> raises, the loop raises the
  same exception, having sent the requests of the pages up to \<open>k\<close> and no other.
\<close>

lemma layout_loop_failure:
  assumes "k < length ps"
    and "\<forall>j<k. \<exists>ds. process_page E A (log @ map (messages E) (take j ps)) (i + j) (ps ! j) = Inr ds"
    and "process_page E A (log @ map (messages E) (take k ps)) (i + k) (ps ! k) = Inl e"
  shows "layout_loop E A i ps docs log = (Inl e, log @ map (messages E) (take (Suc k) ps))"
  using assms
proof (induction ps arbitrary: i k docs log)
  case Nil
  then show ?case by simp
next
  case (Cons p ps)
  show ?case
  proof (cases k)
    case 0
    with Cons.prems show ?thesis by simp
  next
    case (Suc m)
    from Cons.prems(2) Suc obtain ds where ds: "process_page E A log i p = Inr ds"
      by fastforce
    have m: "m < length ps" using Cons.prems(1) Suc by simp
    have a: "\<forall>j<m. \<exists>ds. process_page E A ((log @ [messages E p]) @ map (messages E) (take j ps))
                 (Suc i + j) (ps ! j) = Inr ds"
    proof (intro allI impI)
      fix j assume "j < m"
      then have "Suc j < k" using Suc by simp
      with Cons.prems(2) show "\<exists>ds. process_page E A ((log @ [messages E p]) @ map (messages E) (take j ps))
                 (Suc i + j) (ps ! j) = Inr ds"
        by fastforce
    qed
    have b: "process_page E A ((log @ [messages E p]) @ map (messages E) (take m ps))
               (Suc i + m) (ps ! m) = Inl e"
      using Cons.prems(3) Suc by simp
    from Cons.IH [OF m a b, of "docs @ ds"] ds Suc show ?thesis by simp
  qed
qed

text \<open>
  When page \<open>k\<close> would raise, the loop raises, at page \<open>k\<close> or at a page before it.
\<close>

lemma layout_loop_fails:
  assumes "k < length ps"
    and "process_page E A (log @ map (messages E) (take k ps)) (i + k) (ps ! k) = Inl e"
  shows "\<exists>e' m. m \<le> k \<and>
           layout_loop E A i ps docs log = (Inl e', log @ map (messages E) (take (Suc m) ps))"
  using assms
proof (induction ps arbitrary: i k docs log)
  case Nil
  then show ?case by simp
next
  case (Cons p ps)
  show ?case
  proof (cases "process_page E A log i p")
    case (Inl e0)
    then have "layout_loop E A i (p # ps) docs log
                 = (Inl e0, log @ map (messages E) (take (Suc 0) (p # ps)))"
      by simp
    then show ?thesis by blast
  next
    case (Inr ds)
    with Cons.prems(2) obtain m where k: "k = Suc m" by (cases k) auto
    have m: "m < length ps" using Cons.prems(1) k by simp
    have b: "process_page E A ((log @ [messages E p]) @ map (messages E) (take m ps))
               (Suc i + m) (ps ! m) = Inl e"
      using Cons.prems(2) k by simp
    from Cons.IH [OF m b, of "docs @ ds"] obtain e' m' where
      "m' \<le> m" and
      "layout_loop E A (Suc i) ps (docs @ ds) (log @ [messages E p])
         = (Inl e', (log @ [messages E p]) @ map (messages E) (take (Suc m') ps))"
      by blast
    with Inr k have "Suc m' \<le> k \<and> layout_loop E A i (p # ps) docs log
         = (Inl e', log @ map (messages E) (take (Suc (Suc m')) (p # ps)))"
      by simp
    then show ?thesis by blast
  qed
qed

text \<open>
  Whatever the loop does, the requests it sends are those of the first pages, one for
  each and in order.
\<close>

lemma layout_loop_log_prefix:
  "layout_loop E A i ps docs log = (r, log') \<Longrightarrow>
     \<exists>m\<le>length ps. log' = log @ map (messages E) (take m ps)"
proof (induction ps arbitrary: i docs log)
  case Nil
  then show ?case by simp
next
  case (Cons p ps)
  show ?case
  proof (cases "process_page E A log i p")
    case (Inl e)
    with Cons.prems have "log' = log @ map (messages E) (take (Suc 0) (p # ps))" by simp
    then show ?thesis by (intro exI [of _ "Suc 0"]) simp
  next
    case (Inr ds)
    with Cons.prems
    have "layout_loop E A (Suc i) ps (docs @ ds) (log @ [messages E p]) = (r, log')"
      by simp
    from Cons.IH [OF this] obtain m where
      "m \<le> length ps" and "log' = (log @ [messages E p]) @ map (messages E) (take m ps)"
      by blast
    then show ?thesis by (intro exI [of _ "Suc m"]) simp
  qed
qed

text \<open>The first element whose body raises decides the exception of a comprehension.\<close>

lemma comprehension_first_failure:
  "list_all (\<lambda>y. \<exists>d. f y = Inr d) ys \<Longrightarrow> f x = Inl e \<Longrightarrow>
     comprehension f (ys @ x # zs) = Inl e"
  by (induction ys) auto

text \<open>A page is processed exactly when the model answers, the answer parses, its
  \<open>layout_items\<close> can be iterated and every item becomes a document.\<close>

lemma process_page_Inr_iff:
  "process_page E A log i p = Inr ds \<longleftrightarrow>
     (\<exists>t d v xs.
        generate_content A log (messages E p) = Inr t \<and> json_loads E t = Some d \<and>
        getitem d ''layout_items'' = Inr v \<and> iter_json v = Inr xs \<and>
        list_all2 (\<lambda>x y. item_document i x = Inr y) xs ds)"
  by (auto simp: process_page_def page_documents_def comprehension_Inr_iff
           split: sum.splits option.splits)

text \<open>What \<open>item_document\<close> does with an item that is a \<open>dict\<close>.\<close>

lemma item_document_missing_summary:
  "map_of kvs ''summary'' = None \<Longrightarrow>
     item_document i (JObject kvs) = Inl (KeyError ''summary'')"
  by (simp add: item_document_def)

lemma item_document_missing_element_type:
  "map_of kvs ''summary'' = Some s \<Longrightarrow> map_of kvs ''element_type'' = None \<Longrightarrow>
     item_document i (JObject kvs) = Inl (KeyError ''element_type'')"
  by (simp add: item_document_def)

lemma item_document_accepts:
  "map_of kvs ''summary'' = Some (JString c) \<Longrightarrow> map_of kvs ''element_type'' = Some t \<Longrightarrow>
     item_document i (JObject kvs) =
       Inr \<lparr>page_content = c, metadata = \<lparr>page_number = i, element_type = t\<rparr>\<rparr>"
  by (simp add: item_document_def)

lemma item_document_missing_field:
  assumes "map_of kvs ''summary'' = None \<or> map_of kvs ''element_type'' = None"
  shows "item_document i (JObject kvs) =
           Inl (KeyError (if map_of kvs ''summary'' = None then ''summary'' else ''element_type''))"
  using assms by (auto simp: item_document_def)

text \<open>With a model whose answer depends on the request only, the result of the loop
  does not depend on the log.\<close>

lemma layout_loop_log_independent:
  assumes "\<forall>l l' r. generate_content A l r = generate_content A l' r"
  shows "fst (layout_loop E A i ps docs log) = fst (layout_loop E A i ps docs log')"
proof (induction ps arbitrary: i docs log log')
  case Nil
  show ?case by simp
next
  case (Cons p ps)
  from assms have "process_page E A log i p = process_page E A log' i p"
    unfolding process_page_def by metis
  with Cons.IH show ?case
    by (auto split: sum.splits)
qed

section \<open>Runs of the test doubles\<close>

text \<open>The reference parser on the answer texts.\<close>

lemmas json_loads_ref_defs =
  json_loads_ref_def idle_step_def is_ws_def is_digit_def is_letter_def number_token_def
  word_token_def unescape_def dict_of_def digit_val_def value_step_def key_step_def
  sep_step_def

lemma json_loads_ref_answer_table:
  "json_loads_ref answer_table =
     Some (JObject [(''layout_items'',
       JArray [JObject [(''element_type'', JString ''Table''),
                        (''summary'', JString ''Revenue table'')]])])"
  by (simp add: answer_table_def json_loads_ref_defs)

lemma json_loads_ref_answer_empty:
  "json_loads_ref answer_empty = Some (JObject [(''layout_items'', JArray [])])"
  by (simp add: answer_empty_def json_loads_ref_defs)

lemma json_loads_ref_answer_figure:
  "json_loads_ref answer_figure =
     Some (JObject [(''layout_items'',
       JArray [JObject [(''element_type'', JString ''Figure''),
                        (''summary'', JString ''Sales chart'')]])])"
  by (simp add: answer_figure_def json_loads_ref_defs)

lemma json_loads_ref_answer_malformed:
  "json_loads_ref answer_malformed = None"
  by (simp add: answer_malformed_def json_loads_ref_defs)

lemma json_loads_ref_answer_banana:
  "json_loads_ref answer_banana =
     Some (JObject [(''layout_items'',
       JArray [JObject [(''element_type'', JString ''Banana''),
                        (''summary'', JString ''Yellow fruit'')]])])"
  by (simp add: answer_banana_def json_loads_ref_defs)

lemma json_loads_ref_answer_no_summary:
  "json_loads_ref answer_no_summary =
     Some (JObject [(''layout_items'', JArray [JObject [(''element_type'', JString ''Table'')]])])"
  by (simp add: answer_no_summary_def json_loads_ref_defs)

lemma json_loads_ref_answer_eleven:
  "json_loads_ref answer_eleven = Some (JObject [(''layout_items'', JArray eleven_items)])"
  by (simp add: answer_eleven_def eleven_items_def json_loads_ref_defs)

text \<open>A run over two pages, a table on the first and a figure on the second.\<close>

lemmas run_defs =
  find_layout_items_def process_page_def page_documents_def item_document_def
  mock_env_def mock_agent_def two_pages_def

lemma two_pages_table_figure:
  "find_layout_items (mock_env [''p0'', ''p1''])
     (mock_agent [(''b64:p0'', answer_table), (''b64:p1'', answer_figure)]) two_pages []
   = (Inr [\<lparr>page_content = ''Revenue table'',
            metadata = \<lparr>page_number = 0, element_type = JString ''Table''\<rparr>\<rparr>,
           \<lparr>page_content = ''Sales chart'',
            metadata = \<lparr>page_number = 1, element_type = JString ''Figure''\<rparr>\<rparr>],
      two_pages,
      [messages (mock_env [''p0'', ''p1'']) ''b64:p0'',
       messages (mock_env [''p0'', ''p1'']) ''b64:p1''])"
  by (simp add: run_defs messages_def json_loads_ref_answer_table json_loads_ref_answer_figure)

text \<open>The script on the same document.\<close>

lemma main_two_pages_table_figure:
  "main (mock_env [''p0'', ''p1''])
     (mock_agent [(''b64:p0'', answer_table), (''b64:p1'', answer_figure)]) ''docs.pdf'' []
   = (Inr [\<lparr>page_content = ''Revenue table'',
            metadata = \<lparr>page_number = 0, element_type = JString ''Table''\<rparr>\<rparr>,
           \<lparr>page_content = ''Sales chart'',
            metadata = \<lparr>page_number = 1, element_type = JString ''Figure''\<rparr>\<rparr>],
      two_pages,
      [messages (mock_env [''p0'', ''p1'']) ''b64:p0'',
       messages (mock_env [''p0'', ''p1'']) ''b64:p1''])"
proof -
  have "get_images (mock_env [''p0'', ''p1''])
          \<lparr>document_path = ''docs.pdf'', pages_as_base64_png_images = [], documents = []\<rparr>
        = (Inr [''b64:p0'', ''b64:p1''],
           \<lparr>document_path = ''docs.pdf'', pages_as_base64_png_images = [], documents = []\<rparr>)"
    by (simp add: get_images_def mock_env_def)
  then show ?thesis
    using two_pages_table_figure by (simp add: main_def two_pages_def)
qed

section \<open>The claims\<close>

text \<open>
  C1. Every document that \<open>find_layout_items\<close> returns carries a page number that is an
  index into the list of page images of the state, and the document is one of those made
  from the answer to the request for that very page (the page at that index, processed
  under that index, after the requests of the pages before it).
\<close>

theorem find_layout_items_page_number:
  assumes "find_layout_items E A state log = (Inr docs, state', log')"
    and "d \<in> set docs"
  shows "page_number (metadata d) < length (pages_as_base64_png_images state) \<and>
         (\<exists>ds. process_page E A
                  (log @ map (messages E)
                     (take (page_number (metadata d)) (pages_as_base64_png_images state)))
                  (page_number (metadata d))
                  (pages_as_base64_png_images state ! page_number (metadata d)) = Inr ds
               \<and> d \<in> set ds)"
proof -
  let ?ps = "pages_as_base64_png_images state"
  from assms(1) have "layout_loop E A 0 ?ps [] log = (Inr docs, log')"
    by (auto simp: find_layout_items_def split: prod.splits)
  from layout_loop_success [OF this] obtain dss where
    n: "length dss = length ?ps" and o: "docs = concat dss" and
    a: "\<forall>j<length ?ps. process_page E A (log @ map (messages E) (take j ?ps)) j (?ps ! j)
          = Inr (dss ! j)"
    by auto
  from assms(2) o obtain ds where "ds \<in> set dss" and "d \<in> set ds"
    by auto
  then obtain j where j: "j < length dss" and dj: "d \<in> set (dss ! j)"
    by (metis in_set_conv_nth)
  from a j n have p: "process_page E A (log @ map (messages E) (take j ?ps)) j (?ps ! j)
          = Inr (dss ! j)"
    by simp
  from process_page_page_number [OF p dj] have "page_number (metadata d) = j" .
  with j n p dj show ?thesis by auto
qed

theorem find_layout_items_page_number_witness:
  "find_layout_items (mock_env [''p0'', ''p1''])
     (mock_agent [(''b64:p0'', answer_table), (''b64:p1'', answer_figure)]) two_pages []
   = (Inr [\<lparr>page_content = ''Revenue table'',
            metadata = \<lparr>page_number = 0, element_type = JString ''Table''\<rparr>\<rparr>,
           \<lparr>page_content = ''Sales chart'',
            metadata = \<lparr>page_number = 1, element_type = JString ''Figure''\<rparr>\<rparr>],
      two_pages,
      [messages (mock_env [''p0'', ''p1'']) ''b64:p0'',
       messages (mock_env [''p0'', ''p1'']) ''b64:p1''])
   \<and> page_number (metadata \<lparr>page_content = ''Sales chart'',
            metadata = \<lparr>page_number = 1, element_type = JString ''Figure''\<rparr>\<rparr>)
       < length (pages_as_base64_png_images two_pages)
   \<and> process_page (mock_env [''p0'', ''p1''])
        (mock_agent [(''b64:p0'', answer_table), (''b64:p1'', answer_figure)])
        [messages (mock_env [''p0'', ''p1'']) ''b64:p0''] 1 ''b64:p1''
      = Inr [\<lparr>page_content = ''Sales chart'',
            metadata = \<lparr>page_number = 1, element_type = JString ''Figure''\<rparr>\<rparr>]"
proof -
  let ?fig = "\<lparr>page_content = ''Sales chart'',
            metadata = \<lparr>page_number = 1, element_type = JString ''Figure''\<rparr>\<rparr>"
  let ?tab = "\<lparr>page_content = ''Revenue table'',
            metadata = \<lparr>page_number = 0, element_type = JString ''Table''\<rparr>\<rparr>"
  have m: "?fig \<in> set [?tab, ?fig]" by simp
  from find_layout_items_page_number [OF two_pages_table_figure m]
  obtain ds where
    "page_number (metadata ?fig) < length (pages_as_base64_png_images two_pages)"
    "process_page (mock_env [''p0'', ''p1''])
        (mock_agent [(''b64:p0'', answer_table), (''b64:p1'', answer_figure)])
        [messages (mock_env [''p0'', ''p1'']) ''b64:p0''] 1 ''b64:p1'' = Inr ds"
    by (auto simp: two_pages_def)
  moreover have "process_page (mock_env [''p0'', ''p1''])
        (mock_agent [(''b64:p0'', answer_table), (''b64:p1'', answer_figure)])
        [messages (mock_env [''p0'', ''p1'']) ''b64:p0''] 1 ''b64:p1'' = Inr [?fig]"
    by (simp add: run_defs messages_def json_loads_ref_answer_figure)
  ultimately show ?thesis using two_pages_table_figure by simp
qed

text \<open>
  C2. The requests that \<open>find_layout_items\<close> sends are always those of the first pages,
  one for each and in page order. When it returns, it has sent the request of every page,
  exactly one per page and in page order, and the returned list is the concatenation, in
  page order, of one list per page: the model's answer to the request of page \<open>i\<close>
  parses to a value whose \<open>layout_items\<close> are turned into the documents of page \<open>i\<close>
  one by one, in the order in which they stand in the answer.
\<close>

theorem find_layout_items_order:
  assumes "find_layout_items E A state log = (r, state', log')"
  shows "(\<exists>m\<le>length (pages_as_base64_png_images state).
            log' = log @ map (messages E) (take m (pages_as_base64_png_images state)))
       \<and> (\<forall>docs. r = Inr docs \<longrightarrow>
            log' = log @ map (messages E) (pages_as_base64_png_images state) \<and>
            (\<exists>dss. length dss = length (pages_as_base64_png_images state) \<and>
               docs = concat dss \<and>
               (\<forall>i<length (pages_as_base64_png_images state). \<exists>t d v xs.
                  generate_content A
                    (log @ map (messages E) (take i (pages_as_base64_png_images state)))
                    (messages E (pages_as_base64_png_images state ! i)) = Inr t \<and>
                  json_loads E t = Some d \<and>
                  getitem d ''layout_items'' = Inr v \<and>
                  iter_json v = Inr xs \<and>
                  list_all2 (\<lambda>x y. item_document i x = Inr y) xs (dss ! i))))"
proof -
  let ?ps = "pages_as_base64_png_images state"
  from assms have run: "layout_loop E A 0 ?ps [] log = (r, log')"
    by (auto simp: find_layout_items_def split: prod.splits)
  have 1: "\<exists>m\<le>length ?ps. log' = log @ map (messages E) (take m ?ps)"
    using run by (rule layout_loop_log_prefix)
  have 2: "log' = log @ map (messages E) ?ps \<and>
            (\<exists>dss. length dss = length ?ps \<and> docs = concat dss \<and>
               (\<forall>i<length ?ps. \<exists>t d v xs.
                  generate_content A (log @ map (messages E) (take i ?ps))
                    (messages E (?ps ! i)) = Inr t \<and>
                  json_loads E t = Some d \<and>
                  getitem d ''layout_items'' = Inr v \<and>
                  iter_json v = Inr xs \<and>
                  list_all2 (\<lambda>x y. item_document i x = Inr y) xs (dss ! i)))"
    if "r = Inr docs" for docs
  proof -
    from run that have "layout_loop E A 0 ?ps [] log = (Inr docs, log')" by simp
    from layout_loop_success [OF this] show ?thesis
      by (simp add: process_page_Inr_iff)
  qed
  from 1 2 show ?thesis by blast
qed

theorem find_layout_items_order_witness:
  "find_layout_items (mock_env [''p0'', ''p1''])
     (mock_agent [(''b64:p0'', answer_table), (''b64:p1'', answer_figure)]) two_pages []
   = (Inr [\<lparr>page_content = ''Revenue table'',
            metadata = \<lparr>page_number = 0, element_type = JString ''Table''\<rparr>\<rparr>,
           \<lparr>page_content = ''Sales chart'',
            metadata = \<lparr>page_number = 1, element_type = JString ''Figure''\<rparr>\<rparr>],
      two_pages,
      [messages (mock_env [''p0'', ''p1'']) ''b64:p0'',
       messages (mock_env [''p0'', ''p1'']) ''b64:p1''])
   \<and> [messages (mock_env [''p0'', ''p1'']) ''b64:p0'',
       messages (mock_env [''p0'', ''p1'']) ''b64:p1'']
     = [] @ map (messages (mock_env [''p0'', ''p1''])) (pages_as_base64_png_images two_pages)"
  using find_layout_items_order [OF two_pages_table_figure] two_pages_table_figure
  by simp

text \<open>
  C3. \<open>get_images\<close> raises \<open>AssertionError\<close>, the exception of its two \<open>assert\<close>
  statements, exactly when the document path is not an existing file or the rasteriser
  returns no image; the first gives the message \<open>File does not exist\<close>, the second
  \<open>No images extracted\<close>. When \<open>get_images\<close> raises, the script stops with that
  exception and the log of model requests is as it was: no request is sent. When
  \<open>get_images\<close> returns, the list it returns is not empty and holds the encoding of each
  extracted image, one for one and in order.
\<close>

theorem get_images_input_errors:
  "((\<exists>msg. fst (get_images E state) = Inl (AssertionError msg)) \<longleftrightarrow>
      (\<not> is_file E (document_path state)
       \<or> extract_images_from_pdf E (document_path state) = Inr []))
   \<and> (\<not> is_file E (document_path state) \<longrightarrow>
        fst (get_images E state) = Inl (AssertionError ''File does not exist''))
   \<and> (is_file E (document_path state)
        \<and> extract_images_from_pdf E (document_path state) = Inr [] \<longrightarrow>
        fst (get_images E state) = Inl (AssertionError ''No images extracted''))
   \<and> (\<forall>e. fst (get_images E
              \<lparr>document_path = path, pages_as_base64_png_images = [], documents = []\<rparr>) = Inl e
          \<longrightarrow> main E A path log =
                (Inl e, \<lparr>document_path = path, pages_as_base64_png_images = [], documents = []\<rparr>,
                 log))
   \<and> (\<forall>pages. fst (get_images E state) = Inr pages \<longrightarrow>
         pages \<noteq> []
         \<and> (\<exists>images. extract_images_from_pdf E (document_path state) = Inr images
               \<and> length pages = length images
               \<and> list_all2 (\<lambda>img page. pil_image_to_base64_png E img = Inr page) images pages))"
proof -
  have 1: "(\<exists>msg. fst (get_images E state) = Inl (AssertionError msg)) \<longleftrightarrow>
      (\<not> is_file E (document_path state)
       \<or> extract_images_from_pdf E (document_path state) = Inr [])"
    by (auto simp: get_images_def split: sum.splits)
  have 2: "\<not> is_file E (document_path state) \<longrightarrow>
        fst (get_images E state) = Inl (AssertionError ''File does not exist'')"
    by (simp add: get_images_def)
  have 3: "is_file E (document_path state)
        \<and> extract_images_from_pdf E (document_path state) = Inr [] \<longrightarrow>
        fst (get_images E state) = Inl (AssertionError ''No images extracted'')"
    by (simp add: get_images_def)
  let ?s0 = "\<lparr>document_path = path, pages_as_base64_png_images = [], documents = []\<rparr>"
  have s: "snd (get_images E ?s0) = ?s0"
    by (simp add: get_images_def split: sum.splits)
  have 4: "\<forall>e. fst (get_images E ?s0) = Inl e \<longrightarrow> main E A path log = (Inl e, ?s0, log)"
    using s by (cases "get_images E ?s0") (auto simp: main_def)
  have 5: "\<forall>pages. fst (get_images E state) = Inr pages \<longrightarrow>
         pages \<noteq> []
         \<and> (\<exists>images. extract_images_from_pdf E (document_path state) = Inr images
               \<and> length pages = length images
               \<and> list_all2 (\<lambda>img page. pil_image_to_base64_png E img = Inr page) images pages)"
    by (auto simp: get_images_def comprehension_Inr_iff list_all2_lengthD
             split: if_splits sum.splits)
  from 1 2 3 4 5 show ?thesis by blast
qed

theorem get_images_input_errors_witness:
  "\<not> is_file (mock_env [''p0'', ''p1'']) ''missing.pdf''
   \<and> main (mock_env [''p0'', ''p1'']) (mock_agent []) ''missing.pdf'' []
       = (Inl (AssertionError ''File does not exist''),
          \<lparr>document_path = ''missing.pdf'', pages_as_base64_png_images = [], documents = []\<rparr>,
          [])
   \<and> is_file (mock_env []) ''docs.pdf''
   \<and> extract_images_from_pdf (mock_env []) ''docs.pdf'' = Inr []
   \<and> fst (get_images (mock_env [])
            \<lparr>document_path = ''docs.pdf'', pages_as_base64_png_images = [], documents = []\<rparr>)
       = Inl (AssertionError ''No images extracted'')
   \<and> fst (get_images (mock_env [''p0'', ''p1''])
            \<lparr>document_path = ''docs.pdf'', pages_as_base64_png_images = [], documents = []\<rparr>)
       = Inr [''b64:p0'', ''b64:p1'']"
proof -
  let ?E = "mock_env [''p0'', ''p1'']"
  let ?missing = "\<lparr>document_path = ''missing.pdf'', pages_as_base64_png_images = [],
                   documents = []\<rparr>"
  let ?docs = "\<lparr>document_path = ''docs.pdf'', pages_as_base64_png_images = [],
                documents = []\<rparr>"
  have a: "\<not> is_file ?E (document_path ?missing)"
    by (simp add: mock_env_def)
  from get_images_input_errors [of ?E ?missing "''missing.pdf''" "mock_agent []" "[]"] a
  have "main ?E (mock_agent []) ''missing.pdf'' []
          = (Inl (AssertionError ''File does not exist''), ?missing, [])"
    by blast
  moreover have b: "is_file (mock_env []) (document_path ?docs)
       \<and> extract_images_from_pdf (mock_env []) (document_path ?docs) = Inr []"
    by (simp add: mock_env_def)
  from get_images_input_errors [of "mock_env []" ?docs "''docs.pdf''" "mock_agent []" "[]"] b
  have "fst (get_images (mock_env []) ?docs) = Inl (AssertionError ''No images extracted'')"
    by blast
  moreover have "fst (get_images ?E ?docs) = Inr [''b64:p0'', ''b64:p1'']"
    by (simp add: get_images_def mock_env_def)
  ultimately show ?thesis using a b by simp
qed

text \<open>
  C4. If the answer to the request of some page \<open>k\<close> is not JSON (\<open>json.loads\<close> raises),
  \<open>find_layout_items\<close> raises and returns no document, the state it was given is
  unchanged, and no request is sent for a page after the one that raised. When the pages
  before \<open>k\<close> are processed, the exception is \<open>JSONDecodeError\<close>, raised at page \<open>k\<close>:
  the documents of the earlier pages are lost with the local list.
\<close>

theorem find_layout_items_malformed_json:
  assumes "k < length (pages_as_base64_png_images state)"
    and "generate_content A
           (log @ map (messages E) (take k (pages_as_base64_png_images state)))
           (messages E (pages_as_base64_png_images state ! k)) = Inr t"
    and "json_loads E t = None"
  shows "(\<exists>e m. m \<le> k \<and> find_layout_items E A state log =
            (Inl e, state,
             log @ map (messages E) (take (Suc m) (pages_as_base64_png_images state))))
       \<and> ((\<forall>j<k. \<exists>ds. process_page E A
                (log @ map (messages E) (take j (pages_as_base64_png_images state))) j
                (pages_as_base64_png_images state ! j) = Inr ds)
          \<longrightarrow> find_layout_items E A state log =
                (Inl JSONDecodeError, state,
                 log @ map (messages E) (take (Suc k) (pages_as_base64_png_images state))))"
proof -
  let ?ps = "pages_as_base64_png_images state"
  have p: "process_page E A (log @ map (messages E) (take k ?ps)) (0 + k) (?ps ! k)
             = Inl JSONDecodeError"
    using assms(2,3) by (simp add: process_page_def)
  from layout_loop_fails [OF assms(1) p, of "[]"] have 1:
    "\<exists>e m. m \<le> k \<and> find_layout_items E A state log =
            (Inl e, state, log @ map (messages E) (take (Suc m) ?ps))"
    by (auto simp: find_layout_items_def)
  have 2: "find_layout_items E A state log =
             (Inl JSONDecodeError, state, log @ map (messages E) (take (Suc k) ?ps))"
    if "\<forall>j<k. \<exists>ds. process_page E A (log @ map (messages E) (take j ?ps)) j (?ps ! j) = Inr ds"
  proof -
    from that have "\<forall>j<k. \<exists>ds. process_page E A (log @ map (messages E) (take j ?ps)) (0 + j) (?ps ! j) = Inr ds"
      by simp
    from layout_loop_failure [OF assms(1) this p, of "[]"] show ?thesis
      by (simp add: find_layout_items_def)
  qed
  from 1 2 show ?thesis by blast
qed

theorem find_layout_items_malformed_json_witness:
  "1 < length (pages_as_base64_png_images two_pages)
   \<and> generate_content (mock_agent [(''b64:p0'', answer_table), (''b64:p1'', answer_malformed)])
        [messages (mock_env [''p0'', ''p1'']) ''b64:p0'']
        (messages (mock_env [''p0'', ''p1'']) ''b64:p1'') = Inr answer_malformed
   \<and> json_loads (mock_env [''p0'', ''p1'']) answer_malformed = None
   \<and> process_page (mock_env [''p0'', ''p1''])
        (mock_agent [(''b64:p0'', answer_table), (''b64:p1'', answer_malformed)]) [] 0 ''b64:p0''
      = Inr [\<lparr>page_content = ''Revenue table'',
                  metadata = \<lparr>page_number = 0, element_type = JString ''Table''\<rparr>\<rparr>]
   \<and> find_layout_items (mock_env [''p0'', ''p1''])
       (mock_agent [(''b64:p0'', answer_table), (''b64:p1'', answer_malformed)]) two_pages []
     = (Inl JSONDecodeError, two_pages,
        [messages (mock_env [''p0'', ''p1'']) ''b64:p0'',
         messages (mock_env [''p0'', ''p1'']) ''b64:p1''])"
proof -
  let ?E = "mock_env [''p0'', ''p1'']"
  let ?A = "mock_agent [(''b64:p0'', answer_table), (''b64:p1'', answer_malformed)]"
  have 1: "1 < length (pages_as_base64_png_images two_pages)"
    by (simp add: two_pages_def)
  have 2: "generate_content ?A
             ([] @ map (messages ?E) (take 1 (pages_as_base64_png_images two_pages)))
             (messages ?E (pages_as_base64_png_images two_pages ! 1)) = Inr answer_malformed"
    by (simp add: mock_agent_def messages_def two_pages_def)
  have 3: "json_loads ?E answer_malformed = None"
    by (simp add: mock_env_def json_loads_ref_answer_malformed)
  have 4: "process_page ?E ?A [] 0 ''b64:p0''
      = Inr [\<lparr>page_content = ''Revenue table'',
                  metadata = \<lparr>page_number = 0, element_type = JString ''Table''\<rparr>\<rparr>]"
    by (simp add: run_defs messages_def json_loads_ref_answer_table)
  from 4 have 5: "\<forall>j<1. \<exists>ds. process_page ?E ?A
                ([] @ map (messages ?E) (take j (pages_as_base64_png_images two_pages))) j
                (pages_as_base64_png_images two_pages ! j) = Inr ds"
    by (simp add: two_pages_def)
  from find_layout_items_malformed_json [OF 1 2 3] 5
  have "find_layout_items ?E ?A two_pages [] =
          (Inl JSONDecodeError, two_pages,
           [] @ map (messages ?E) (take (Suc 1) (pages_as_base64_png_images two_pages)))"
    by blast
  then have "find_layout_items ?E ?A two_pages [] =
          (Inl JSONDecodeError, two_pages, [messages ?E ''b64:p0'', messages ?E ''b64:p1''])"
    by (simp add: two_pages_def)
  with 1 2 3 4 show ?thesis by (simp add: two_pages_def)
qed

text \<open>
  C5, counterexample. The agent never compares \<open>element_type\<close> with the four literals:
  an answer whose only item has the element type \<open>Banana\<close>, which is none of them, does
  not make \<open>find_layout_items\<close> raise; it returns the document of the item, carrying
  \<open>Banana\<close>.
\<close>

theorem find_layout_items_unknown_element_type_accepted:
  "json_loads_ref answer_banana =
     Some (JObject [(''layout_items'',
       JArray [JObject [(''element_type'', JString ''Banana''),
                        (''summary'', JString ''Yellow fruit'')]])])
   \<and> ''Banana'' \<notin> set element_type_literals
   \<and> find_layout_items (mock_env [''p0'']) (mock_agent [(''b64:p0'', answer_banana)]) one_page []
     = (Inr [\<lparr>page_content = ''Yellow fruit'',
              metadata = \<lparr>page_number = 0, element_type = JString ''Banana''\<rparr>\<rparr>],
        one_page, [messages (mock_env [''p0'']) ''b64:p0''])"
  by (simp add: run_defs one_page_def messages_def json_loads_ref_answer_banana
        element_type_literals_def)

text \<open>
  C5, amended. If the answer for a page is valid JSON whose \<open>layout_items\<close> is a list
  that holds an item (a \<open>dict\<close>) without \<open>summary\<close> or without \<open>element_type\<close>,
  \<open>find_layout_items\<close> raises and the run ends with no documents and the state unchanged;
  when the pages before and the items before convert, the exception is the \<open>KeyError\<close> of
  the missing key (\<open>summary\<close> is read first). The element type is not checked: an item
  with a string \<open>summary\<close> and any \<open>element_type\<close> becomes a document that carries this
  element type as it is.
\<close>

theorem find_layout_items_missing_field:
  assumes "k < length (pages_as_base64_png_images state)"
    and "generate_content A
           (log @ map (messages E) (take k (pages_as_base64_png_images state)))
           (messages E (pages_as_base64_png_images state ! k)) = Inr t"
    and "json_loads E t = Some d"
    and "getitem d ''layout_items'' = Inr (JArray xs)"
    and "JObject kvs \<in> set xs"
    and "map_of kvs ''summary'' = None \<or> map_of kvs ''element_type'' = None"
  shows "(\<exists>e m. m \<le> k \<and> find_layout_items E A state log =
            (Inl e, state,
             log @ map (messages E) (take (Suc m) (pages_as_base64_png_images state))))
       \<and> ((\<forall>j<k. \<exists>ds. process_page E A
                (log @ map (messages E) (take j (pages_as_base64_png_images state))) j
                (pages_as_base64_png_images state ! j) = Inr ds)
           \<and> (\<exists>ys zs. xs = ys @ JObject kvs # zs
                 \<and> list_all (\<lambda>y. \<exists>doc. item_document k y = Inr doc) ys)
          \<longrightarrow> find_layout_items E A state log =
                (Inl (KeyError (if map_of kvs ''summary'' = None then ''summary''
                                else ''element_type'')),
                 state,
                 log @ map (messages E) (take (Suc k) (pages_as_base64_png_images state))))
       \<and> (\<forall>i kvs' c u.
             map_of kvs' ''summary'' = Some (JString c) \<and> map_of kvs' ''element_type'' = Some u
             \<longrightarrow> item_document i (JObject kvs') =
                   Inr \<lparr>page_content = c, metadata = \<lparr>page_number = i, element_type = u\<rparr>\<rparr>)"
proof -
  let ?ps = "pages_as_base64_png_images state"
  let ?err = "KeyError (if map_of kvs ''summary'' = None then ''summary'' else ''element_type'')"
  have item: "item_document k (JObject kvs) = Inl ?err"
    using assms(6) by (rule item_document_missing_field)
  have page: "process_page E A (log @ map (messages E) (take k ?ps)) k (?ps ! k)
                = comprehension (item_document k) xs"
    using assms(2,3,4) by (simp add: process_page_def page_documents_def)
  from comprehension_Inl [where f = "item_document k", OF assms(5) item] obtain e' where
    "comprehension (item_document k) xs = Inl e'" by blast
  with page have p: "process_page E A (log @ map (messages E) (take k ?ps)) (0 + k) (?ps ! k)
                       = Inl e'"
    by simp
  from layout_loop_fails [OF assms(1) p, of "[]"] have 1:
    "\<exists>e m. m \<le> k \<and> find_layout_items E A state log =
            (Inl e, state, log @ map (messages E) (take (Suc m) ?ps))"
    by (auto simp: find_layout_items_def)
  have 2: "find_layout_items E A state log =
             (Inl ?err, state, log @ map (messages E) (take (Suc k) ?ps))"
    if before: "\<forall>j<k. \<exists>ds. process_page E A (log @ map (messages E) (take j ?ps)) j (?ps ! j) = Inr ds"
      and first: "\<exists>ys zs. xs = ys @ JObject kvs # zs
                 \<and> list_all (\<lambda>y. \<exists>doc. item_document k y = Inr doc) ys"
  proof -
    from first obtain ys zs where xs: "xs = ys @ JObject kvs # zs"
      and ys: "list_all (\<lambda>y. \<exists>doc. item_document k y = Inr doc) ys"
      by blast
    from comprehension_first_failure [OF ys item] xs
    have "comprehension (item_document k) xs = Inl ?err" by simp
    with page have q: "process_page E A (log @ map (messages E) (take k ?ps)) (0 + k) (?ps ! k)
                         = Inl ?err"
      by simp
    from before have "\<forall>j<k. \<exists>ds. process_page E A (log @ map (messages E) (take j ?ps)) (0 + j) (?ps ! j) = Inr ds"
      by simp
    from layout_loop_failure [OF assms(1) this q, of "[]"] show ?thesis
      by (simp add: find_layout_items_def)
  qed
  have 3: "\<forall>i kvs' c u.
             map_of kvs' ''summary'' = Some (JString c) \<and> map_of kvs' ''element_type'' = Some u
             \<longrightarrow> item_document i (JObject kvs') =
                   Inr \<lparr>page_content = c, metadata = \<lparr>page_number = i, element_type = u\<rparr>\<rparr>"
    by (simp add: item_document_accepts)
  from 1 2 3 show ?thesis by blast
qed

theorem find_layout_items_missing_field_witness:
  "0 < length (pages_as_base64_png_images one_page)
   \<and> generate_content (mock_agent [(''b64:p0'', answer_no_summary)]) []
        (messages (mock_env [''p0'']) ''b64:p0'') = Inr answer_no_summary
   \<and> json_loads (mock_env [''p0'']) answer_no_summary =
        Some (JObject [(''layout_items'', JArray [JObject [(''element_type'', JString ''Table'')]])])
   \<and> map_of [(''element_type'', JString ''Table'')] ''summary'' = None
   \<and> find_layout_items (mock_env [''p0'']) (mock_agent [(''b64:p0'', answer_no_summary)])
       one_page []
     = (Inl (KeyError ''summary''), one_page, [messages (mock_env [''p0'']) ''b64:p0''])"
proof -
  let ?E = "mock_env [''p0'']"
  let ?A = "mock_agent [(''b64:p0'', answer_no_summary)]"
  let ?kvs = "[(''element_type'', JString ''Table'')]"
  let ?d = "JObject [(''layout_items'', JArray [JObject ?kvs])]"
  have 1: "0 < length (pages_as_base64_png_images one_page)"
    by (simp add: one_page_def)
  have 2: "generate_content ?A
             ([] @ map (messages ?E) (take 0 (pages_as_base64_png_images one_page)))
             (messages ?E (pages_as_base64_png_images one_page ! 0)) = Inr answer_no_summary"
    by (simp add: mock_agent_def messages_def one_page_def)
  have 3: "json_loads ?E answer_no_summary = Some ?d"
    by (simp add: mock_env_def json_loads_ref_answer_no_summary)
  have 4: "getitem ?d ''layout_items'' = Inr (JArray [JObject ?kvs])" by simp
  have 5: "JObject ?kvs \<in> set [JObject ?kvs]" by simp
  have 6: "map_of ?kvs ''summary'' = None \<or> map_of ?kvs ''element_type'' = None" by simp
  have 7: "\<exists>ys zs. [JObject ?kvs] = ys @ JObject ?kvs # zs
                 \<and> list_all (\<lambda>y. \<exists>doc. item_document 0 y = Inr doc) ys"
    by (intro exI [of _ "[]"]) simp
  from find_layout_items_missing_field [OF 1 2 3 4 5 6] 7
  have "find_layout_items ?E ?A one_page [] =
          (Inl (KeyError (if map_of ?kvs ''summary'' = None then ''summary''
                          else ''element_type'')),
           one_page,
           [] @ map (messages ?E) (take (Suc 0) (pages_as_base64_png_images one_page)))"
    by blast
  then have "find_layout_items ?E ?A one_page [] =
          (Inl (KeyError ''summary''), one_page, [messages ?E ''b64:p0''])"
    by (simp add: one_page_def)
  with 1 2 3 show ?thesis by (simp add: one_page_def)
qed

text \<open>
  C6. At most ten layout elements are to be accepted from one answer, and the module
  says so itself: the description of the field \<open>element_type\<close> (lines 18 and 19) tells
  the model "Return 10 Items at most." Nothing holds the code to it. The declared class
  \<open>LayoutElements\<close> (line 25) has no bound on the length of \<open>layout_items\<close>, so an
  answer of eleven items conforms to the schema, and \<open>find_layout_items\<close> (lines 82 to
  93) turns every item of the answer into a document: for one page whose answer holds
  eleven items it returns eleven documents, all of page 0.
\<close>

theorem find_layout_items_eleven_items_accepted:
  "json_loads_ref answer_eleven = Some (JObject [(''layout_items'', JArray eleven_items)])
   \<and> length eleven_items = 11
   \<and> LayoutElements_validate (JObject [(''layout_items'', JArray eleven_items)])
   \<and> find_layout_items (mock_env [''p0'']) (mock_agent [(''b64:p0'', answer_eleven)])
        one_page []
      = (Inr eleven_documents, one_page, [messages (mock_env [''p0'']) ''b64:p0''])
   \<and> length eleven_documents = 11"
  by (simp add: run_defs one_page_def messages_def json_loads_ref_answer_eleven
        eleven_items_def eleven_documents_def LayoutElements_validate_def
        DetectedLayoutItem_validate_def element_type_literals_def)

text \<open>
  C7. For a state with two pages, when the model answers the first request with
  \<open>{"layout_items":[{"element_type":"Table","summary":"Revenue table"}]}\<close> and the
  second with \<open>{"layout_items":[]}\<close>, and \<open>json.loads\<close> reads the two texts as the
  values they denote, \<open>find_layout_items\<close> returns exactly one document: summary
  \<open>Revenue table\<close>, element type \<open>Table\<close>, page number 0. The second page gives no
  document.
\<close>

theorem find_layout_items_two_page_scenario:
  assumes "pages_as_base64_png_images state = [p0, p1]"
    and "generate_content A log (messages E p0) = Inr answer_table"
    and "json_loads E answer_table =
           Some (JObject [(''layout_items'',
             JArray [JObject [(''element_type'', JString ''Table''),
                              (''summary'', JString ''Revenue table'')]])])"
    and "generate_content A (log @ [messages E p0]) (messages E p1) = Inr answer_empty"
    and "json_loads E answer_empty = Some (JObject [(''layout_items'', JArray [])])"
  shows "find_layout_items E A state log =
           (Inr [\<lparr>page_content = ''Revenue table'',
                  metadata = \<lparr>page_number = 0, element_type = JString ''Table''\<rparr>\<rparr>],
            state, log @ [messages E p0, messages E p1])
         \<and> process_page E A (log @ [messages E p0]) 1 p1 = Inr []"
  using assms
  by (simp add: find_layout_items_def process_page_def page_documents_def item_document_def)

theorem find_layout_items_two_page_scenario_witness:
  "pages_as_base64_png_images two_pages = [''b64:p0'', ''b64:p1'']
   \<and> json_loads (mock_env [''p0'', ''p1'']) answer_table =
           Some (JObject [(''layout_items'',
             JArray [JObject [(''element_type'', JString ''Table''),
                              (''summary'', JString ''Revenue table'')]])])
   \<and> json_loads (mock_env [''p0'', ''p1'']) answer_empty
        = Some (JObject [(''layout_items'', JArray [])])
   \<and> find_layout_items (mock_env [''p0'', ''p1''])
       (mock_agent [(''b64:p0'', answer_table), (''b64:p1'', answer_empty)]) two_pages []
     = (Inr [\<lparr>page_content = ''Revenue table'',
                  metadata = \<lparr>page_number = 0, element_type = JString ''Table''\<rparr>\<rparr>],
        two_pages,
        [messages (mock_env [''p0'', ''p1'']) ''b64:p0'',
         messages (mock_env [''p0'', ''p1'']) ''b64:p1''])"
proof -
  let ?E = "mock_env [''p0'', ''p1'']"
  let ?A = "mock_agent [(''b64:p0'', answer_table), (''b64:p1'', answer_empty)]"
  have 1: "pages_as_base64_png_images two_pages = [''b64:p0'', ''b64:p1'']"
    by (simp add: two_pages_def)
  have 2: "generate_content ?A [] (messages ?E ''b64:p0'') = Inr answer_table"
    by (simp add: mock_agent_def messages_def)
  have 3: "json_loads ?E answer_table =
           Some (JObject [(''layout_items'',
             JArray [JObject [(''element_type'', JString ''Table''),
                              (''summary'', JString ''Revenue table'')]])])"
    by (simp add: mock_env_def json_loads_ref_answer_table)
  have 4: "generate_content ?A ([] @ [messages ?E ''b64:p0'']) (messages ?E ''b64:p1'')
             = Inr answer_empty"
    by (simp add: mock_agent_def messages_def)
  have 5: "json_loads ?E answer_empty = Some (JObject [(''layout_items'', JArray [])])"
    by (simp add: mock_env_def json_loads_ref_answer_empty)
  from find_layout_items_two_page_scenario [OF 1 2 3 4 5] 1 3 5 show ?thesis
    by simp
qed

text \<open>
  C8. With a model whose answer depends on the request only, running the script twice on
  the same document gives the same result: the second run, which starts when the model
  has already received the requests of the first, returns the same documents in the same
  order (or raises the same exception).
\<close>

theorem main_two_runs:
  assumes "\<forall>log log' req. generate_content A log req = generate_content A log' req"
  shows "fst (main E A path (snd (snd (main E A path log)))) = fst (main E A path log)"
proof -
  have "fst (find_layout_items E A s l) = fst (find_layout_items E A s l')" for s l l'
    using layout_loop_log_independent [OF assms, of E 0 "pages_as_base64_png_images s" "[]" l l']
    by (simp add: find_layout_items_def case_prod_beta)
  then show ?thesis
    by (auto simp: main_def Let_def split: prod.splits sum.splits)
qed

theorem main_two_runs_witness:
  "(\<forall>log log' req.
      generate_content (mock_agent [(''b64:p0'', answer_table), (''b64:p1'', answer_figure)]) log req
      = generate_content (mock_agent [(''b64:p0'', answer_table), (''b64:p1'', answer_figure)]) log' req)
   \<and> fst (main (mock_env [''p0'', ''p1''])
           (mock_agent [(''b64:p0'', answer_table), (''b64:p1'', answer_figure)]) ''docs.pdf''
           [messages (mock_env [''p0'', ''p1'']) ''b64:p0'',
            messages (mock_env [''p0'', ''p1'']) ''b64:p1''])
     = Inr [\<lparr>page_content = ''Revenue table'',
            metadata = \<lparr>page_number = 0, element_type = JString ''Table''\<rparr>\<rparr>,
           \<lparr>page_content = ''Sales chart'',
            metadata = \<lparr>page_number = 1, element_type = JString ''Figure''\<rparr>\<rparr>]"
proof -
  let ?A = "mock_agent [(''b64:p0'', answer_table), (''b64:p1'', answer_figure)]"
  have h: "\<forall>log log' req. generate_content ?A log req = generate_content ?A log' req"
    by (simp add: mock_agent_def)
  from main_two_runs [OF h, of "mock_env [''p0'', ''p1'']" "''docs.pdf''" "[]"] h
  show ?thesis
    by (simp add: main_two_pages_table_figure)
qed

text \<open>
  C9. Neither \<open>get_images\<close> nor \<open>find_layout_items\<close> writes to the state it is given:
  the state after the call is the state before it, whether the call returns or raises.
  In the script the state changes only by the caller's assignment of the pages:
  \<open>document_path\<close> and \<open>documents\<close> keep their first values, and the pages are those
  \<open>get_images\<close> returned (none if it raised).
\<close>

theorem operations_leave_state_unchanged:
  "snd (get_images E state) = state
   \<and> fst (snd (find_layout_items E A state log)) = state
   \<and> document_path (fst (snd (main E A path log))) = path
   \<and> documents (fst (snd (main E A path log))) = []
   \<and> pages_as_base64_png_images (fst (snd (main E A path log))) =
       (case fst (get_images E
                    \<lparr>document_path = path, pages_as_base64_png_images = [], documents = []\<rparr>) of
          Inl e \<Rightarrow> []
        | Inr pages \<Rightarrow> pages)"
proof -
  have g: "snd (get_images E s) = s" for s
    by (simp add: get_images_def split: sum.splits)
  have f: "fst (snd (find_layout_items E A s l)) = s" for s l
    by (simp add: find_layout_items_def split: prod.splits)
  let ?s0 = "\<lparr>document_path = path, pages_as_base64_png_images = [], documents = []\<rparr>"
  have m: "fst (snd (main E A path log)) =
             (case fst (get_images E ?s0) of
                Inl e \<Rightarrow> ?s0
              | Inr pages \<Rightarrow> ?s0\<lparr>pages_as_base64_png_images := pages\<rparr>)"
    using g [of ?s0] f
    by (cases "get_images E ?s0") (auto simp: main_def split: sum.splits)
  show ?thesis
    using g f by (simp add: m split: sum.splits)
qed

text \<open>
  C10. For a state whose list of page images is empty, \<open>find_layout_items\<close> succeeds,
  returns the empty list of documents and sends no request to the model: the log of
  requests is the one it started with, and the state is untouched. That the list of pages
  is not empty is checked in \<open>get_images\<close> only.
\<close>

theorem find_layout_items_no_pages:
  assumes "pages_as_base64_png_images state = []"
  shows "find_layout_items E A state log = (Inr [], state, log)"
  using assms by (simp add: find_layout_items_def)

theorem find_layout_items_no_pages_witness:
  "pages_as_base64_png_images
     \<lparr>document_path = ''docs.pdf'', pages_as_base64_png_images = [], documents = []\<rparr> = []
   \<and> find_layout_items (mock_env []) (mock_agent [])
        \<lparr>document_path = ''docs.pdf'', pages_as_base64_png_images = [], documents = []\<rparr> []
      = (Inr [], \<lparr>document_path = ''docs.pdf'', pages_as_base64_png_images = [], documents = []\<rparr>, [])"
  using find_layout_items_no_pages
    [of "\<lparr>document_path = ''docs.pdf'', pages_as_base64_png_images = [], documents = []\<rparr>"
        "mock_env []" "mock_agent []" "[]"]
  by simp


end
